theory Spec2Isabelle
  imports Complex_Main "HOL-Library.Char_ord" "HOL-Library.List_Lexorder"
begin

section \<open>The live path: SimpleSmaCrossDemoAlgorithm\<close>

text \<open>
  The algorithm object keeps one field between callbacks, \<^verbatim>\<open>_was_fast_above\<close>, which is
  \<^verbatim>\<open>None\<close> until the first sample that reaches the comparison. The chart points that
  \<^verbatim>\<open>self.plot\<close> sends to the host are kept in \<open>plots\<close>, oldest first, each with the
  series name, the host clock at the callback and the plotted value.
\<close>

record plot_point =
  series_name :: string
  plotted_at :: int
  plotted_value :: real

record algo =
  was_fast_above :: "bool option"
  plots :: "plot_point list"

text \<open>
  What one call of \<^verbatim>\<open>on_data\<close> reads from the host: \<^verbatim>\<open>self.is_warming_up\<close>, the
  readiness and current value of the two indicators, the host clock, and the bar of the
  symbol in the slice (\<open>None\<close> when \<^verbatim>\<open>data.contains_key\<close> is false or the entry is
  \<^verbatim>\<open>None\<close>; otherwise its close).
\<close>

record tick =
  is_warming_up :: bool
  fast_is_ready :: bool
  slow_is_ready :: bool
  fast_value :: real
  slow_value :: real
  tick_time :: int
  bar_close :: "real option"

text \<open>
  The order that one call of \<^verbatim>\<open>on_data\<close> places: \<open>Enter\<close> is
  \<^verbatim>\<open>self.set_holdings(self._symbol, 1.0)\<close>, \<open>Exit\<close> is \<^verbatim>\<open>self.liquidate(self._symbol)\<close>,
  \<open>NoSignal\<close> is a call that places none.
\<close>

datatype signal = Enter | Exit | NoSignal

definition plot :: "algo \<Rightarrow> string \<Rightarrow> int \<Rightarrow> real \<Rightarrow> algo" where
  "plot s name now v =
     s\<lparr>plots := plots s @ [\<lparr>series_name = name, plotted_at = now, plotted_value = v\<rparr>]\<rparr>"

definition is_fast_above :: "tick \<Rightarrow> bool" where
  "is_fast_above t = (fast_value t > slow_value t)"

definition on_data :: "algo \<Rightarrow> tick \<Rightarrow> signal \<times> algo" where
  "on_data s t =
     (if is_warming_up t then (NoSignal, s)
      else if \<not> (fast_is_ready t \<and> slow_is_ready t) then (NoSignal, s)
      else case bar_close t of
        None \<Rightarrow> (NoSignal, s)
      | Some close \<Rightarrow>
          let s1 = plot s ''Price'' (tick_time t) close;
              s2 = plot s1 ''FastSMA'' (tick_time t) (fast_value t);
              s3 = plot s2 ''SlowSMA'' (tick_time t) (slow_value t);
              above = is_fast_above t
          in case was_fast_above s3 of
               None \<Rightarrow> (NoSignal, s3\<lparr>was_fast_above := Some above\<rparr>)
             | Some was \<Rightarrow>
                 ((if above \<and> \<not> was then Enter
                   else if \<not> above \<and> was then Exit
                   else NoSignal),
                  s3\<lparr>was_fast_above := Some above\<rparr>))"

text \<open>
  A call reaches the comparison of the two averages when it passes the three early
  returns of \<^verbatim>\<open>on_data\<close>.
\<close>

definition reaches_detector :: "tick \<Rightarrow> bool" where
  "reaches_detector t \<longleftrightarrow>
     \<not> is_warming_up t \<and> fast_is_ready t \<and> slow_is_ready t \<and> bar_close t \<noteq> None"

text \<open>The host calls \<^verbatim>\<open>on_data\<close> once per slice; \<open>trace\<close> lists, for each call, the
  signal and the state it leaves.\<close>

fun trace :: "algo \<Rightarrow> tick list \<Rightarrow> (signal \<times> algo) list" where
  "trace s [] = []"
| "trace s (t # ts) = (let r = on_data s t in r # trace (snd r) ts)"

definition signals :: "algo \<Rightarrow> tick list \<Rightarrow> signal list" where
  "signals s ts = map fst (trace s ts)"

definition stored :: "algo \<Rightarrow> tick list \<Rightarrow> bool option list" where
  "stored s ts = map (was_fast_above \<circ> snd) (trace s ts)"

text \<open>Transitions of a sequence of booleans that starts from \<open>b0\<close>.\<close>

definition rises :: "bool \<Rightarrow> bool list \<Rightarrow> nat" where
  "rises b0 bs = length (filter (\<lambda>(was, now). \<not> was \<and> now) (zip (b0 # bs) bs))"

definition falls :: "bool \<Rightarrow> bool list \<Rightarrow> nat" where
  "falls b0 bs = length (filter (\<lambda>(was, now). was \<and> \<not> now) (zip (b0 # bs) bs))"

subsection \<open>Order events\<close>

datatype order_status =
  NEW | SUBMITTED | PARTIALLY_FILLED | FILLED | CANCELED | NONE | INVALID
  | CANCEL_PENDING | UPDATE_SUBMITTED

record order_event =
  status :: order_status
  fill_quantity :: real
  fill_price :: real
  event_time :: int

definition on_order_event :: "algo \<Rightarrow> order_event \<Rightarrow> algo" where
  "on_order_event s ev =
     (if status ev \<noteq> FILLED then s
      else if fill_quantity ev > 0 then plot s ''Buy'' (event_time ev) (fill_price ev)
      else if fill_quantity ev < 0 then plot s ''Sell'' (event_time ev) (fill_price ev)
      else s)"

text \<open>The trade log of a run: the points of the two marker series, in plotting order.\<close>

definition trade_log :: "algo \<Rightarrow> plot_point list" where
  "trade_log s = filter (\<lambda>p. series_name p = ''Buy'' \<or> series_name p = ''Sell'') (plots s)"

text \<open>Sample inputs: a slice past warm-up with both indicators ready and a bar.\<close>

definition ready_tick :: "real \<Rightarrow> real \<Rightarrow> tick" where
  "ready_tick f sl =
     \<lparr>is_warming_up = False, fast_is_ready = True, slow_is_ready = True,
      fast_value = f, slow_value = sl, tick_time = 0, bar_close = Some f\<rparr>"

definition fresh :: algo where
  "fresh = \<lparr>was_fast_above = None, plots = []\<rparr>"

definition holding :: "bool \<Rightarrow> algo" where
  "holding b = \<lparr>was_fast_above = Some b, plots = []\<rparr>"

section \<open>The offline path: visualize_lean_charts\<close>

subsection \<open>Values read from the backtest file\<close>

text \<open>
  \<^verbatim>\<open>json.load\<close> gives Python values: \<^verbatim>\<open>None\<close>, booleans, integers (unbounded), floats,
  strings, lists and dicts with string keys. The floats are kept abstract in the type
  \<open>'f\<close>. A dict is an association list read through \<open>map_of\<close>; the keys of a dict are
  distinct.
\<close>

datatype 'f json =
  JNull
| JBool bool
| JInt int
| JFloat 'f
| JStr string
| JList "'f json list"
| JObj "(string \<times> 'f json) list"

text \<open>
  The exceptions that leave the functions below. \<open>TimestampError\<close> is the exception of
  \<^verbatim>\<open>datetime.fromtimestamp\<close> for an instant outside the years 1 to 9999 (and of the
  division \<^verbatim>\<open>ms / 1000\<close> for an integer too large for a float); \<open>LoadError\<close> and
  \<open>WriteError\<close> are the failures of reading and parsing the input file and of writing
  the output file.
\<close>

datatype py_error =
  AttributeError
| TypeError
| TimestampError
| LoadError
| WriteError
| SystemExit string

text \<open>
  The parts of Python's built-ins that work on floats and on the text of strings are
  parameters: \<^verbatim>\<open>int(s)\<close> and \<^verbatim>\<open>float(s)\<close> for a string, \<^verbatim>\<open>int(f)\<close> for a float
  (it raises on nan and the infinities), \<^verbatim>\<open>float(i)\<close> for an integer (it raises when
  the integer is too large), the truth value of a float, and the format
  \<^verbatim>\<open>{price:.4f}\<close>. \<open>None\<close> stands for a raised exception.
\<close>

record 'f runtime =
  int_of_str :: "string \<Rightarrow> int option"
  int_of_float :: "'f \<Rightarrow> int option"
  float_of_str :: "string \<Rightarrow> 'f option"
  float_of_int :: "int \<Rightarrow> 'f option"
  float_is_zero :: "'f \<Rightarrow> bool"
  format_4f :: "'f \<Rightarrow> string"

text \<open>\<^verbatim>\<open>int(v)\<close> and \<^verbatim>\<open>float(v)\<close>; \<open>None\<close> when the call raises (TypeError, ValueError
  or OverflowError, all of them caught by \<^verbatim>\<open>except Exception\<close>).\<close>

fun py_int :: "'f runtime \<Rightarrow> 'f json \<Rightarrow> int option" where
  "py_int rt JNull = None"
| "py_int rt (JBool b) = Some (if b then 1 else 0)"
| "py_int rt (JInt i) = Some i"
| "py_int rt (JFloat f) = int_of_float rt f"
| "py_int rt (JStr s) = int_of_str rt s"
| "py_int rt (JList xs) = None"
| "py_int rt (JObj kvs) = None"

fun py_float :: "'f runtime \<Rightarrow> 'f json \<Rightarrow> 'f option" where
  "py_float rt JNull = None"
| "py_float rt (JBool b) = float_of_int rt (if b then 1 else 0)"
| "py_float rt (JInt i) = float_of_int rt i"
| "py_float rt (JFloat f) = Some f"
| "py_float rt (JStr s) = float_of_str rt s"
| "py_float rt (JList xs) = None"
| "py_float rt (JObj kvs) = None"

text \<open>Truth value, and \<^verbatim>\<open>a or b\<close>.\<close>

fun truthy :: "'f runtime \<Rightarrow> 'f json \<Rightarrow> bool" where
  "truthy rt JNull = False"
| "truthy rt (JBool b) = b"
| "truthy rt (JInt i) = (i \<noteq> 0)"
| "truthy rt (JFloat f) = (\<not> float_is_zero rt f)"
| "truthy rt (JStr s) = (s \<noteq> [])"
| "truthy rt (JList xs) = (xs \<noteq> [])"
| "truthy rt (JObj kvs) = (kvs \<noteq> [])"

definition py_or :: "'f runtime \<Rightarrow> 'f json \<Rightarrow> 'f json \<Rightarrow> 'f json" where
  "py_or rt a b = (if truthy rt a then a else b)"

text \<open>\<^verbatim>\<open>v.get(k)\<close>: only a dict has the method; a missing key gives \<^verbatim>\<open>None\<close>.\<close>

fun py_get :: "'f json \<Rightarrow> string \<Rightarrow> py_error + 'f json" where
  "py_get (JObj kvs) k = Inr (case map_of kvs k of None \<Rightarrow> JNull | Some v \<Rightarrow> v)"
| "py_get v k = Inl AttributeError"

text \<open>\<^verbatim>\<open>for item in v\<close>: a list gives its elements, a dict its keys, a string its
  characters (each a string of length one); anything else is not iterable.\<close>

fun py_iter :: "'f json \<Rightarrow> py_error + 'f json list" where
  "py_iter (JList xs) = Inr xs"
| "py_iter (JObj kvs) = Inr (map (\<lambda>kv. JStr (fst kv)) kvs)"
| "py_iter (JStr s) = Inr (map (\<lambda>c. JStr [c]) s)"
| "py_iter v = Inl TypeError"

definition and_then :: "py_error + 'a \<Rightarrow> ('a \<Rightarrow> py_error + 'b) \<Rightarrow> py_error + 'b" where
  "and_then r f = (case r of Inl e \<Rightarrow> Inl e | Inr v \<Rightarrow> f v)"

subsection \<open>\<^verbatim>\<open>_extract_xy\<close>\<close>

text \<open>The two accepted shapes of an item, giving \<^verbatim>\<open>x_s, y\<close>; \<open>None\<close> is the
  \<^verbatim>\<open>else: continue\<close> branch.\<close>

fun point_of :: "'f json \<Rightarrow> ('f json \<times> 'f json) option" where
  "point_of (JList [x_s, y]) = Some (x_s, y)"
| "point_of (JObj kvs) =
     (case map_of kvs ''x'' of
        None \<Rightarrow> None
      | Some x_s \<Rightarrow> (case map_of kvs ''y'' of None \<Rightarrow> None | Some y \<Rightarrow> Some (x_s, y)))"
| "point_of v = None"

text \<open>
  The loop body. Inside the \<^verbatim>\<open>try\<close>, \<^verbatim>\<open>xs_ms.append(int(x_s) * 1000)\<close> runs before
  \<^verbatim>\<open>ys.append(float(y))\<close>: when \<^verbatim>\<open>int\<close> raises nothing is appended, when only
  \<^verbatim>\<open>float\<close> raises the timestamp has already been appended.
\<close>

fun extract_loop ::
  "'f runtime \<Rightarrow> 'f json list \<Rightarrow> int list \<Rightarrow> 'f list \<Rightarrow> int list \<times> 'f list" where
  "extract_loop rt [] xs_ms ys = (xs_ms, ys)"
| "extract_loop rt (item # rest) xs_ms ys =
     (case point_of item of
        None \<Rightarrow> extract_loop rt rest xs_ms ys
      | Some (x_s, y) \<Rightarrow>
          (case py_int rt x_s of
             None \<Rightarrow> extract_loop rt rest xs_ms ys
           | Some i \<Rightarrow>
               (case py_float rt y of
                  None \<Rightarrow> extract_loop rt rest (xs_ms @ [i * 1000]) ys
                | Some f \<Rightarrow> extract_loop rt rest (xs_ms @ [i * 1000]) (ys @ [f]))))"

definition extract_xy :: "'f runtime \<Rightarrow> 'f json \<Rightarrow> py_error + (int list \<times> 'f list)" where
  "extract_xy rt series =
     and_then (py_get series ''values'') (\<lambda>v.
     and_then (py_iter (py_or rt v (JList []))) (\<lambda>values.
     Inr (extract_loop rt values [] [])))"

subsection \<open>\<^verbatim>\<open>_ms_to_utc_iso\<close>\<close>

text \<open>
  \<^verbatim>\<open>datetime.fromtimestamp(ms / 1000, tz=timezone.utc)\<close> accepts the instants of the
  years 1 to 9999 and \<^verbatim>\<open>strftime\<close> prints the second the instant falls in. The
  calendar date of a day number (days since 1970-01-01) is computed in the proleptic
  Gregorian calendar, by eras of 400 years. Month, day, hour, minute and second are
  printed with two digits; \<^verbatim>\<open>%Y\<close> is printed as the C library of Linux prints it,
  without leading zeros, so a year below 1000 has fewer than four digits.
\<close>

definition civil_from_days :: "int \<Rightarrow> int \<times> int \<times> int" where
  "civil_from_days days =
     (let z = days + 719468;
          era = z div 146097;
          doe = z mod 146097;
          yoe = (doe - doe div 1460 + doe div 36524 - doe div 146096) div 365;
          doy = doe - (365 * yoe + yoe div 4 - yoe div 100);
          mp = (5 * doy + 2) div 153;
          d = doy - (153 * mp + 2) div 5 + 1;
          m = (if mp < 10 then mp + 3 else mp - 9);
          y = yoe + era * 400 + (if m \<le> 2 then 1 else 0)
      in (y, m, d))"

definition digit :: "int \<Rightarrow> char" where
  "digit n = ''0123456789'' ! nat (n mod 10)"

definition pad2 :: "int \<Rightarrow> string" where
  "pad2 n = [digit (n div 10), digit n]"

definition year_digits :: "int \<Rightarrow> string" where
  "year_digits y =
     (if y < 10 then [digit y]
      else if y < 100 then [digit (y div 10), digit y]
      else if y < 1000 then [digit (y div 100), digit (y div 10), digit y]
      else [digit (y div 1000), digit (y div 100), digit (y div 10), digit y])"

definition strftime :: "int \<Rightarrow> string" where
  "strftime secs =
     (let (y, m, d) = civil_from_days (secs div 86400);
          rem = secs mod 86400
      in year_digits y @ ''-'' @ pad2 m @ ''-'' @ pad2 d @ '' '' @
         pad2 (rem div 3600) @ '':'' @ pad2 (rem mod 3600 div 60) @ '':'' @ pad2 (rem mod 60))"

definition ms_to_utc_iso :: "int \<Rightarrow> py_error + string" where
  "ms_to_utc_iso ms =
     (let secs = ms div 1000
      in if secs < - 62135596800 \<or> 253402300799 < secs then Inl TimestampError
         else Inr (strftime secs))"

subsection \<open>\<^verbatim>\<open>_build_trades_table\<close>\<close>

type_synonym 'f trade = "string \<times> string \<times> 'f"

text \<open>One of the two \<^verbatim>\<open>for x, y in zip(...)\<close> loops, appending to \<^verbatim>\<open>trades\<close>.\<close>

fun append_trades ::
  "string \<Rightarrow> (int \<times> 'f) list \<Rightarrow> 'f trade list \<Rightarrow> py_error + 'f trade list" where
  "append_trades side [] trades = Inr trades"
| "append_trades side ((x, y) # rest) trades =
     and_then (ms_to_utc_iso x) (\<lambda>time_utc.
     append_trades side rest (trades @ [(time_utc, side, y)]))"

text \<open>The list \<^verbatim>\<open>trades\<close> after \<^verbatim>\<open>trades.sort(key=lambda t: t[0])\<close>; Python's sort is
  stable, as is \<open>sort_key\<close>.\<close>

definition build_trades ::
  "int list \<Rightarrow> 'f list \<Rightarrow> int list \<Rightarrow> 'f list \<Rightarrow> py_error + 'f trade list" where
  "build_trades buy_x buy_y sell_x sell_y =
     and_then (append_trades ''BUY'' (zip buy_x buy_y) []) (\<lambda>trades.
     and_then (append_trades ''SELL'' (zip sell_x sell_y) trades) (\<lambda>trades.
     Inr (sort_key fst trades)))"

definition join :: "string \<Rightarrow> string list \<Rightarrow> string" where
  "join sep xs = concat (case xs of [] \<Rightarrow> [] | x # rest \<Rightarrow> x # map (\<lambda>s. sep @ s) rest)"

definition trade_row :: "'f runtime \<Rightarrow> 'f trade \<Rightarrow> string" where
  \<open>trade_row rt t =
     (case t of (time_utc, side, price) \<Rightarrow>
        ''<tr>'' @
        ''<td style="padding: 6px; border-bottom: 1px solid #eee;">'' @ time_utc @ ''</td>'' @
        ''<td style="padding: 6px; border-bottom: 1px solid #eee;">'' @ side @ ''</td>'' @
        ''<td style="padding: 6px; border-bottom: 1px solid #eee; text-align: right;">'' @
          format_4f rt price @ ''</td>'' @
        ''</tr>'')\<close>

definition build_trades_table ::
  "'f runtime \<Rightarrow> int list \<Rightarrow> 'f list \<Rightarrow> int list \<Rightarrow> 'f list
     \<Rightarrow> py_error + (string \<times> 'f trade list)" where
  \<open>build_trades_table rt buy_x buy_y sell_x sell_y =
     and_then (build_trades buy_x buy_y sell_x sell_y) (\<lambda>trades.
     let rows = map (trade_row rt) trades
     in Inr (if rows \<noteq> [] then join [CHR 0x0A] rows
             else ''<tr><td colspan="3" style="padding: 6px;">No trades</td></tr>'',
             trades))\<close>


text \<open>The records that the two loops build from the paired markers, before the sort.\<close>

definition marked :: "string \<Rightarrow> (int \<times> 'f) list \<Rightarrow> 'f trade list" where
  "marked side ps = map (\<lambda>(x, y). (strftime (x div 1000), side, y)) ps"

subsection \<open>\<^verbatim>\<open>main\<close>\<close>

text \<open>
  The command line after \<^verbatim>\<open>parse_args\<close> and path resolution: the resolved input path,
  the chart name and the resolved output path. The file system as \<^verbatim>\<open>main\<close> meets it:
  the input file is missing, or it exists and cannot be read or parsed, or it parses to
  a value; the output file can be written or not.
\<close>

record args =
  input_path :: string
  chart_name :: string
  output_path :: string

datatype 'f input_file = Missing | Unloadable | Parsed "'f json"

text \<open>
  What a completed run leaves: the arguments handed to \<^verbatim>\<open>_build_html\<close> (whose template
  text is not modelled), the file they are written to, and the lines printed.
\<close>

record 'f report =
  title :: string
  price_series :: "int list \<times> 'f list"
  fast_series :: "int list \<times> 'f list"
  slow_series :: "int list \<times> 'f list"
  buy_series :: "int list \<times> 'f list"
  sell_series :: "int list \<times> 'f list"
  trades_rows_html :: string
  written_to :: string
  printed :: "string list"

definition dict_keys :: "'f json \<Rightarrow> string list" where
  "dict_keys v = (case v of JObj kvs \<Rightarrow> remdups (map fst kvs) | _ \<Rightarrow> [])"

definition extract_named ::
  "'f runtime \<Rightarrow> 'f json \<Rightarrow> string \<Rightarrow> py_error + (int list \<times> 'f list)" where
  "extract_named rt series name =
     and_then (py_get series name) (\<lambda>v. extract_xy rt (py_or rt v (JObj [])))"

definition trade_line :: "'f runtime \<Rightarrow> 'f trade \<Rightarrow> string" where
  "trade_line rt t =
     (case t of (time_utc, side, price) \<Rightarrow>
        ''- '' @ time_utc @ '' '' @ side @ '' @ '' @ format_4f rt price)"

definition missing_chart_message :: "string \<Rightarrow> string list \<Rightarrow> string" where
  "missing_chart_message name keys =
     ''Chart '' @ [CHR 0x27] @ name @ [CHR 0x27] @ '' not found. Available: '' @
     join '', '' (sort keys)"

definition main ::
  "'f runtime \<Rightarrow> args \<Rightarrow> 'f input_file \<Rightarrow> bool \<Rightarrow> py_error + (int \<times> 'f report)" where
  "main rt a file writable =
     (case file of
        Missing \<Rightarrow> Inl (SystemExit (''Input json not found: '' @ input_path a))
      | Unloadable \<Rightarrow> Inl LoadError
      | Parsed result \<Rightarrow>
          and_then (py_get result ''charts'') (\<lambda>c.
          let charts = py_or rt c (JObj []) in
          and_then (py_get charts (chart_name a)) (\<lambda>chart.
          case chart of
            JNull \<Rightarrow> Inl (SystemExit (missing_chart_message (chart_name a) (dict_keys charts)))
          | _ \<Rightarrow>
              and_then (py_get chart ''series'') (\<lambda>sr.
              let series = py_or rt sr (JObj []) in
              and_then (extract_named rt series ''Price'') (\<lambda>price_xy.
              and_then (extract_named rt series ''FastSMA'') (\<lambda>fast_xy.
              and_then (extract_named rt series ''SlowSMA'') (\<lambda>slow_xy.
              and_then (extract_named rt series ''Buy'') (\<lambda>buy_xy.
              and_then (extract_named rt series ''Sell'') (\<lambda>sell_xy.
              and_then (build_trades_table rt (fst buy_xy) (snd buy_xy)
                          (fst sell_xy) (snd sell_xy)) (\<lambda>(rows, trades).
              if \<not> writable then Inl WriteError
              else Inr (0,
                \<lparr>title = ''LEAN Backtest: '' @ chart_name a @ '' (Price + Trades + SMA)'',
                 price_series = price_xy, fast_series = fast_xy, slow_series = slow_xy,
                 buy_series = buy_xy, sell_series = sell_xy,
                 trades_rows_html = rows,
                 written_to = output_path a,
                 printed = (if trades \<noteq> []
                            then ''Trades (UTC):'' # map (trade_line rt) trades else [])
                           @ [output_path a]\<rparr>)))))))))))"

text \<open>
  The status the process ends with under \<^verbatim>\<open>raise SystemExit(main())\<close>: an integer
  returned by \<^verbatim>\<open>main\<close> is the status; \<^verbatim>\<open>SystemExit\<close> raised with a message prints the
  message on standard error and ends with status 1; any other exception ends with a
  traceback and status 1.
\<close>

definition exit_status :: "py_error + (int \<times> 'f report) \<Rightarrow> int" where
  "exit_status r = (case r of Inl e \<Rightarrow> 1 | Inr (rc, rep) \<Rightarrow> rc)"

definition stderr_message :: "py_error + (int \<times> 'f report) \<Rightarrow> string option" where
  "stderr_message r = (case r of Inl (SystemExit msg) \<Rightarrow> Some msg | _ \<Rightarrow> None)"

section \<open>Properties of the live path\<close>

lemma on_data_skip:
  "\<not> reaches_detector t \<Longrightarrow> on_data s t = (NoSignal, s)"
  by (auto simp: on_data_def reaches_detector_def)

lemma on_data_signal:
  "reaches_detector t \<Longrightarrow>
   fst (on_data s t) =
     (case was_fast_above s of
        None \<Rightarrow> NoSignal
      | Some was \<Rightarrow> if is_fast_above t \<and> \<not> was then Enter
                    else if \<not> is_fast_above t \<and> was then Exit else NoSignal)"
  by (auto simp: on_data_def reaches_detector_def plot_def Let_def split: option.splits)

lemma on_data_stored:
  "reaches_detector t \<Longrightarrow> was_fast_above (snd (on_data s t)) = Some (is_fast_above t)"
  by (auto simp: on_data_def reaches_detector_def plot_def Let_def split: option.splits)

text \<open>
  C1, counterexample. With the stored state above (\<open>Some True\<close>) and a slice on which the
  fast and the slow average are both 5, \<^verbatim>\<open>is_fast_above\<close> is false, the second branch
  of \<^verbatim>\<open>on_data\<close> liquidates, and the stored state is overwritten with false: the
  equality tick emits \<open>Exit\<close> and clears the above-state.
\<close>

theorem equality_tick_exits:
  "reaches_detector (ready_tick 5 5) \<and>
   fast_value (ready_tick 5 5) = slow_value (ready_tick 5 5) \<and>
   was_fast_above (holding True) = Some True \<and>
   fst (on_data (holding True) (ready_tick 5 5)) = Exit \<and>
   was_fast_above (snd (on_data (holding True) (ready_tick 5 5))) = Some False"
  by (simp add: on_data_def reaches_detector_def ready_tick_def holding_def plot_def
      is_fast_above_def)

text \<open>
  C1, as amended. On a call that reaches the comparison with an initialized state and
  equal averages, the strict test fails (\<open>is_fast_above\<close> is false), \<open>Enter\<close> is never
  emitted, \<open>Exit\<close> is emitted exactly when the stored state was above, and the stored
  state becomes false.
\<close>

theorem equality_tick:
  assumes "reaches_detector t" and "was_fast_above s = Some was"
    and "fast_value t = slow_value t"
  shows "\<not> is_fast_above t \<and>
         fst (on_data s t) = (if was then Exit else NoSignal) \<and>
         fst (on_data s t) \<noteq> Enter \<and>
         was_fast_above (snd (on_data s t)) = Some False"
  using assms by (simp add: on_data_signal on_data_stored) (simp add: is_fast_above_def)

theorem equality_tick_witness:
  "fst (on_data (holding True) (ready_tick 5 5)) = Exit \<and>
   fst (on_data (holding False) (ready_tick 5 5)) = NoSignal \<and>
   was_fast_above (snd (on_data (holding True) (ready_tick 5 5))) = Some False"
  using equality_tick [of "ready_tick 5 5" "holding True" True]
    equality_tick [of "ready_tick 5 5" "holding False" False]
  by (simp add: reaches_detector_def ready_tick_def holding_def)

lemma trace_signals:
  "was_fast_above s = Some b0 \<Longrightarrow> \<forall>t\<in>set ts. reaches_detector t \<Longrightarrow>
   signals s ts =
     map (\<lambda>(was, now). if now \<and> \<not> was then Enter else if \<not> now \<and> was then Exit else NoSignal)
       (zip (b0 # map is_fast_above ts) (map is_fast_above ts))"
proof (induction ts arbitrary: s b0)
  case Nil
  then show ?case by (simp add: signals_def)
next
  case (Cons t ts)
  have st: "was_fast_above (snd (on_data s t)) = Some (is_fast_above t)"
    using Cons.prems by (simp add: on_data_stored)
  have "signals (snd (on_data s t)) ts = 
     map (\<lambda>(was, now). if now \<and> \<not> was then Enter else if \<not> now \<and> was then Exit else NoSignal)
       (zip (is_fast_above t # map is_fast_above ts) (map is_fast_above ts))"
    using Cons.IH [OF st] Cons.prems by simp
  then show ?case using Cons.prems
    by (simp add: signals_def Let_def on_data_signal)
qed

lemma trace_stored:
  "was_fast_above s = Some b0 \<Longrightarrow> \<forall>t\<in>set ts. reaches_detector t \<Longrightarrow>
   stored s ts = map (Some \<circ> is_fast_above) ts"
proof (induction ts arbitrary: s b0)
  case Nil
  then show ?case by (simp add: stored_def)
next
  case (Cons t ts)
  have st: "was_fast_above (snd (on_data s t)) = Some (is_fast_above t)"
    using Cons.prems by (simp add: on_data_stored)
  show ?case using Cons.IH [OF st] Cons.prems st
    by (simp add: stored_def Let_def)
qed

lemma length_trace: "length (trace s ts) = length ts"
  by (induction ts arbitrary: s) (simp_all add: Let_def)

lemma count_map_filter:
  "count_list (map f xs) y = length (filter (\<lambda>x. f x = y) xs)"
  by (induction xs) auto

lemma count_signals_total:
  "count_list evs Enter + count_list evs Exit + count_list evs NoSignal = length evs"
proof (induction evs)
  case Nil
  show ?case by simp
next
  case (Cons e evs)
  then show ?case by (cases e) simp_all
qed

text \<open>
  C3. From an initialized state with stored value \<open>b0\<close>, over any sequence of calls that
  reach the comparison: the number of \<open>Enter\<close> signals is the number of false-to-true
  steps of the sequence of \<open>is_fast_above\<close> values (started at \<open>b0\<close>), the number of
  \<open>Exit\<close> signals is the number of true-to-false steps, all remaining calls give
  \<open>NoSignal\<close> (a call whose value equals the previous one gives \<open>NoSignal\<close>), and after
  each call the stored value is that call's \<open>is_fast_above\<close>.
\<close>

theorem signals_count_transitions:
  assumes "was_fast_above s = Some b0" and "\<forall>t\<in>set ts. reaches_detector t"
  shows "count_list (signals s ts) Enter = rises b0 (map is_fast_above ts) \<and>
         count_list (signals s ts) Exit = falls b0 (map is_fast_above ts) \<and>
         count_list (signals s ts) NoSignal =
           length ts - rises b0 (map is_fast_above ts) - falls b0 (map is_fast_above ts) \<and>
         (\<forall>i<length ts. (b0 # map is_fast_above ts) ! i = map is_fast_above ts ! i
             \<longrightarrow> signals s ts ! i = NoSignal) \<and>
         stored s ts = map (Some \<circ> is_fast_above) ts"
proof -
  let ?bs = "map is_fast_above ts"
  let ?g = "\<lambda>(was, now). if now \<and> \<not> was then Enter
                          else if \<not> now \<and> was then Exit else NoSignal"
  have sig: "signals s ts = map ?g (zip (b0 # ?bs) ?bs)"
    using assms by (rule trace_signals)
  have len: "length (signals s ts) = length ts"
    by (simp add: signals_def length_trace)
  have enter: "count_list (signals s ts) Enter = rises b0 ?bs"
    unfolding sig rises_def count_map_filter
    by (rule arg_cong [where f = length], rule filter_cong) (auto split: if_splits)
  have exit: "count_list (signals s ts) Exit = falls b0 ?bs"
    unfolding sig falls_def count_map_filter
    by (rule arg_cong [where f = length], rule filter_cong) (auto split: if_splits)
  have none: "count_list (signals s ts) NoSignal = length ts - rises b0 ?bs - falls b0 ?bs"
    using count_signals_total [of "signals s ts"] enter exit len by linarith
  have steady: "signals s ts ! i = NoSignal"
    if "i < length ts" and "(b0 # ?bs) ! i = ?bs ! i" for i
  proof -
    have "signals s ts ! i = ?g ((b0 # ?bs) ! i, ?bs ! i)"
      unfolding sig using that(1) by simp
    then show ?thesis using that(2) by simp
  qed
  have st: "stored s ts = map (Some \<circ> is_fast_above) ts"
    using assms by (rule trace_stored)
  show ?thesis using enter exit none steady st by blast
qed

theorem signals_count_transitions_witness:
  "count_list (signals (holding False) [ready_tick 2 1, ready_tick 3 1, ready_tick 1 1,
       ready_tick 0 1, ready_tick 4 1]) Enter = 2 \<and>
   count_list (signals (holding False) [ready_tick 2 1, ready_tick 3 1, ready_tick 1 1,
       ready_tick 0 1, ready_tick 4 1]) Exit = 1 \<and>
   count_list (signals (holding False) [ready_tick 2 1, ready_tick 3 1, ready_tick 1 1,
       ready_tick 0 1, ready_tick 4 1]) NoSignal = 2 \<and>
   stored (holding False) [ready_tick 2 1, ready_tick 3 1, ready_tick 1 1, ready_tick 0 1,
       ready_tick 4 1] = [Some True, Some True, Some False, Some False, Some True]"
proof -
  let ?ts = "[ready_tick 2 1, ready_tick 3 1, ready_tick 1 1, ready_tick 0 1, ready_tick 4 1]"
  have init: "was_fast_above (holding False) = Some False"
    by (simp add: holding_def)
  have act: "\<forall>t\<in>set ?ts. reaches_detector t"
    by (simp add: reaches_detector_def ready_tick_def)
  note counted = signals_count_transitions [OF init act]
  have bs: "map is_fast_above ?ts = [True, True, False, False, True]"
    by (simp add: is_fast_above_def ready_tick_def)
  have up: "rises False [True, True, False, False, True] = 2"
    by (simp add: rises_def)
  have down: "falls False [True, True, False, False, True] = 1"
    by (simp add: falls_def)
  have c1: "count_list (signals (holding False) ?ts) Enter = 2"
    using counted [THEN conjunct1] unfolding bs up .
  have c2: "count_list (signals (holding False) ?ts) Exit = 1"
    using counted [THEN conjunct2, THEN conjunct1] unfolding bs down .
  have c3: "count_list (signals (holding False) ?ts) NoSignal = 2"
    using counted [THEN conjunct2, THEN conjunct2, THEN conjunct1] unfolding bs up down
    by simp
  have c4: "stored (holding False) ?ts = [Some True, Some True, Some False, Some False, Some True]"
    using counted [THEN conjunct2, THEN conjunct2, THEN conjunct2, THEN conjunct2]
    unfolding map_map [symmetric] bs by simp
  show ?thesis using c1 c2 c3 c4 by blast
qed

text \<open>
  C4, counterexample. A call during warm-up at which both indicators are already ready
  returns at the first guard of \<^verbatim>\<open>on_data\<close>: \<^verbatim>\<open>_was_fast_above\<close> stays \<open>None\<close>, so
  this first ready step does not initialize the state.
\<close>

theorem first_ready_sample_in_warm_up:
  "fast_is_ready ((ready_tick 2 1)\<lparr>is_warming_up := True\<rparr>) \<and>
   slow_is_ready ((ready_tick 2 1)\<lparr>is_warming_up := True\<rparr>) \<and>
   was_fast_above fresh = None \<and>
   was_fast_above (snd (on_data fresh ((ready_tick 2 1)\<lparr>is_warming_up := True\<rparr>))) = None"
  by (simp add: on_data_def ready_tick_def fresh_def)

text \<open>
  C4, as amended. While the state is uninitialized every call returns \<open>NoSignal\<close>,
  whatever the two values are. The first call that reaches the comparison (past warm-up,
  both indicators ready, a bar for the symbol in the slice) stores
  \<open>fast_value > slow_value\<close>; a call stopped by one of the guards leaves the state as it
  was.
\<close>

theorem first_sample_initializes:
  assumes "was_fast_above s = None"
  shows "fst (on_data s t) = NoSignal \<and>
         (reaches_detector t \<longrightarrow>
            was_fast_above (snd (on_data s t)) = Some (fast_value t > slow_value t)) \<and>
         (\<not> reaches_detector t \<longrightarrow> snd (on_data s t) = s)"
  using assms
  by (cases "reaches_detector t")
     (simp_all add: on_data_signal on_data_stored on_data_skip is_fast_above_def)

theorem first_sample_initializes_witness:
  "fst (on_data fresh (ready_tick 2 1)) = NoSignal \<and>
   was_fast_above (snd (on_data fresh (ready_tick 2 1))) = Some True \<and>
   fst (on_data fresh (ready_tick 1 2)) = NoSignal \<and>
   was_fast_above (snd (on_data fresh (ready_tick 1 2))) = Some False"
  using first_sample_initializes [of fresh "ready_tick 2 1"]
    first_sample_initializes [of fresh "ready_tick 1 2"]
  by (simp add: fresh_def reaches_detector_def ready_tick_def)

text \<open>
  C5. A call at which the two indicators are not both ready returns \<open>NoSignal\<close> and
  leaves the whole state (the stored flag, whether it is set, and the plots) unchanged;
  over any sequence of such calls every step gives \<open>NoSignal\<close> and the same state.
\<close>

theorem not_ready_no_signal:
  "(\<not> (fast_is_ready t \<and> slow_is_ready t) \<longrightarrow> on_data s t = (NoSignal, s)) \<and>
   ((\<forall>t\<in>set ts. \<not> (fast_is_ready t \<and> slow_is_ready t)) \<longrightarrow>
      trace s ts = replicate (length ts) (NoSignal, s))"
proof
  show "\<not> (fast_is_ready t \<and> slow_is_ready t) \<longrightarrow> on_data s t = (NoSignal, s)"
    by (auto simp: on_data_def)
  show "(\<forall>t\<in>set ts. \<not> (fast_is_ready t \<and> slow_is_ready t)) \<longrightarrow>
      trace s ts = replicate (length ts) (NoSignal, s)"
    by (induction ts) (auto simp: on_data_def Let_def)
qed

theorem not_ready_no_signal_witness:
  "on_data (holding False) ((ready_tick 2 1)\<lparr>fast_is_ready := False\<rparr>)
     = (NoSignal, holding False) \<and>
   trace (holding True) [(ready_tick 0 1)\<lparr>slow_is_ready := False\<rparr>,
       (ready_tick 2 1)\<lparr>fast_is_ready := False\<rparr>]
     = [(NoSignal, holding True), (NoSignal, holding True)]"
  using not_ready_no_signal [of "(ready_tick 2 1)\<lparr>fast_is_ready := False\<rparr>" "holding False"
      "[(ready_tick 0 1)\<lparr>slow_is_ready := False\<rparr>, (ready_tick 2 1)\<lparr>fast_is_ready := False\<rparr>]"]
    not_ready_no_signal [of "(ready_tick 2 1)\<lparr>fast_is_ready := False\<rparr>" "holding True"
      "[(ready_tick 0 1)\<lparr>slow_is_ready := False\<rparr>, (ready_tick 2 1)\<lparr>fast_is_ready := False\<rparr>]"]
  by (simp add: ready_tick_def)

lemma trade_log_plot:
  "trade_log (plot s name now v) =
     trade_log s @ (if name = ''Buy'' \<or> name = ''Sell''
        then [\<lparr>series_name = name, plotted_at = now, plotted_value = v\<rparr>] else [])"
  by (simp add: trade_log_def plot_def)

text \<open>
  C7. An order event with fill quantity zero leaves the state, hence the trade log,
  unchanged, for every price, time and status. A filled event with positive quantity
  appends one \<open>Buy\<close> point at the fill price to the trade log, one with negative quantity
  one \<open>Sell\<close> point.
\<close>

theorem zero_fill_not_recorded:
  "(fill_quantity ev = 0 \<longrightarrow> on_order_event s ev = s) \<and>
   (status ev = FILLED \<and> fill_quantity ev > 0 \<longrightarrow>
      trade_log (on_order_event s ev) = trade_log s @
        [\<lparr>series_name = ''Buy'', plotted_at = event_time ev, plotted_value = fill_price ev\<rparr>]) \<and>
   (status ev = FILLED \<and> fill_quantity ev < 0 \<longrightarrow>
      trade_log (on_order_event s ev) = trade_log s @
        [\<lparr>series_name = ''Sell'', plotted_at = event_time ev, plotted_value = fill_price ev\<rparr>])"
  by (simp add: on_order_event_def trade_log_plot)

theorem zero_fill_not_recorded_witness:
  "on_order_event fresh \<lparr>status = FILLED, fill_quantity = 0, fill_price = 321, event_time = 7\<rparr>
     = fresh \<and>
   trade_log (on_order_event fresh
       \<lparr>status = FILLED, fill_quantity = 10, fill_price = 321, event_time = 7\<rparr>)
     = [\<lparr>series_name = ''Buy'', plotted_at = 7, plotted_value = 321\<rparr>] \<and>
   trade_log (on_order_event fresh
       \<lparr>status = FILLED, fill_quantity = - 10, fill_price = 322, event_time = 8\<rparr>)
     = [\<lparr>series_name = ''Sell'', plotted_at = 8, plotted_value = 322\<rparr>]"
  using zero_fill_not_recorded [of
      "\<lparr>status = FILLED, fill_quantity = 0, fill_price = 321, event_time = 7\<rparr>" fresh]
    zero_fill_not_recorded [of
      "\<lparr>status = FILLED, fill_quantity = 10, fill_price = 321, event_time = 7\<rparr>" fresh]
    zero_fill_not_recorded [of
      "\<lparr>status = FILLED, fill_quantity = - 10, fill_price = 322, event_time = 8\<rparr>" fresh]
  by (simp add: trade_log_def fresh_def)

section \<open>Properties of the offline path\<close>

lemma extract_xy_values:
  "extract_xy rt (JObj [(''values'', JList items)]) = Inr (extract_loop rt items [] [])"
  by (cases items) (simp_all add: extract_xy_def and_then_def py_or_def)

text \<open>
  C2. The extractor returns for every list of points (\<open>extract_xy_values\<close>), but a point
  whose timestamp coerces and whose value does not is not skipped entirely. For the
  single point \<^verbatim>\<open>[1, null]\<close>, \<^verbatim>\<open>int(1) * 1000\<close> is appended to \<^verbatim>\<open>xs_ms\<close>, then
  \<^verbatim>\<open>float(None)\<close> raises and the handler continues: the result holds one timestamp and
  no value.
\<close>

theorem extract_xy_keeps_timestamp_of_bad_value:
  "extract_xy rt (JObj [(''values'', JList [JList [JInt 1, JNull]])]) = Inr ([1000], [])"
  by (simp add: extract_xy_values)

lemma extract_loop_forms:
  "extract_loop rt (map (\<lambda>(t, v). JList [t, v]) pts) xs ys =
   extract_loop rt (map (\<lambda>(t, v). JObj [(''x'', t), (''y'', v)]) pts) xs ys"
  by (induction pts arbitrary: xs ys) (auto split: option.splits)

text \<open>
  C8. For every list of pairs \<open>(t, v)\<close> of values, the extractor gives the same result
  on the series whose points are the arrays \<^verbatim>\<open>[t, v]\<close> and on the series whose points
  are the objects \<^verbatim>\<open>{"x": t, "y": v}\<close>.
\<close>

theorem extract_xy_array_form_eq_object_form:
  "extract_xy rt (JObj [(''values'', JList (map (\<lambda>(t, v). JList [t, v]) pts))]) =
   extract_xy rt (JObj [(''values'', JList (map (\<lambda>(t, v). JObj [(''x'', t), (''y'', v)]) pts))])"
  by (simp only: extract_xy_values extract_loop_forms)

lemma append_trades_Inr:
  "append_trades side ps acc = Inr r \<Longrightarrow> r = acc @ marked side ps"
proof (induction ps arbitrary: acc)
  case Nil
  then show ?case by (simp add: marked_def)
next
  case (Cons p ps)
  obtain x y where p: "p = (x, y)" by (cases p)
  show ?case
  proof (cases "ms_to_utc_iso x")
    case (Inl e)
    with Cons.prems p show ?thesis by (simp add: and_then_def)
  next
    case (Inr t)
    then have t: "t = strftime (x div 1000)"
      by (simp add: ms_to_utc_iso_def Let_def split: if_splits)
    from Cons.prems p Inr have "append_trades side ps (acc @ [(t, side, y)]) = Inr r"
      by (simp add: and_then_def)
    from Cons.IH [OF this] show ?thesis
      by (simp add: marked_def p t)
  qed
qed

lemma append_trades_Inl:
  "append_trades side ps acc = Inl e \<Longrightarrow> \<exists>x\<in>set (map fst ps). ms_to_utc_iso x = Inl e"
proof (induction ps arbitrary: acc)
  case Nil
  then show ?case by simp
next
  case (Cons p ps)
  obtain x y where p: "p = (x, y)" by (cases p)
  show ?case
  proof (cases "ms_to_utc_iso x")
    case (Inl e')
    with Cons.prems p show ?thesis by (simp add: and_then_def)
  next
    case (Inr t)
    from Cons.prems p Inr have "append_trades side ps (acc @ [(t, side, y)]) = Inl e"
      by (simp add: and_then_def)
    from Cons.IH [OF this] show ?thesis by auto
  qed
qed

lemma build_trades_Inr:
  assumes "build_trades bx by' sx sy = Inr trades"
  shows "trades = sort_key fst (marked ''BUY'' (zip bx by') @ marked ''SELL'' (zip sx sy))"
proof -
  from assms obtain t1 where t1: "append_trades ''BUY'' (zip bx by') [] = Inr t1"
    by (cases "append_trades ''BUY'' (zip bx by') []") (simp_all add: build_trades_def and_then_def)
  with assms obtain t2 where t2: "append_trades ''SELL'' (zip sx sy) t1 = Inr t2"
    by (cases "append_trades ''SELL'' (zip sx sy) t1") (simp_all add: build_trades_def and_then_def)
  from assms t1 t2 have "trades = sort_key fst t2"
    by (simp add: build_trades_def and_then_def)
  with append_trades_Inr [OF t1] append_trades_Inr [OF t2] show ?thesis by simp
qed

lemma build_trades_Inl:
  assumes "build_trades bx by' sx sy = Inl e"
  shows "\<exists>x\<in>set (take (length by') bx) \<union> set (take (length sy) sx). ms_to_utc_iso x = Inl e"
proof (cases "append_trades ''BUY'' (zip bx by') []")
  case (Inl e')
  with assms have "e' = e" by (simp add: build_trades_def and_then_def)
  with append_trades_Inl [OF Inl] show ?thesis
    by (auto simp: map_fst_zip_take min_def split: if_splits dest: in_set_takeD)
next
  case (Inr t1)
  with assms have "append_trades ''SELL'' (zip sx sy) t1 = Inl e"
    by (cases "append_trades ''SELL'' (zip sx sy) t1") (simp_all add: build_trades_def and_then_def)
  from append_trades_Inl [OF this] show ?thesis
    by (auto simp: map_fst_zip_take min_def split: if_splits dest: in_set_takeD)
qed

lemma side_of_marked:
  "map (\<lambda>t. fst (snd t)) (filter P (marked side ps)) =
   replicate (length (filter P (marked side ps))) side"
proof -
  have "\<forall>t\<in>set (filter P (marked side ps)). fst (snd t) = side"
    by (auto simp: marked_def)
  then show ?thesis
    by (simp add: map_replicate_const [symmetric] cong: map_cong)
qed

text \<open>
  C6. For every four input lists the function either returns the trades or raises the
  exception of \<^verbatim>\<open>_ms_to_utc_iso\<close> on one of the paired timestamps, so it returns
  whenever every paired timestamp has a UTC date. The trades it returns are sorted
  ascending by their time string; the trades with any given time string are the buy
  records with that string, in input order, followed by the sell records with that
  string, in input order; so among the trades of one instant every \<^verbatim>\<open>BUY\<close> comes
  before every \<^verbatim>\<open>SELL\<close>.
\<close>

theorem trades_sorted_stably:
  "(case build_trades buy_x buy_y sell_x sell_y of
      Inr trades \<Rightarrow>
        sorted (map fst trades) \<and>
        (\<forall>k. filter (\<lambda>t. fst t = k) trades =
              filter (\<lambda>t. fst t = k) (marked ''BUY'' (zip buy_x buy_y)) @
              filter (\<lambda>t. fst t = k) (marked ''SELL'' (zip sell_x sell_y))) \<and>
        (\<forall>k. \<exists>m n. map (\<lambda>t. fst (snd t)) (filter (\<lambda>t. fst t = k) trades) =
              replicate m ''BUY'' @ replicate n ''SELL'')
    | Inl e \<Rightarrow>
        \<exists>x\<in>set (take (length buy_y) buy_x) \<union> set (take (length sell_y) sell_x).
           ms_to_utc_iso x = Inl e)"
proof (cases "build_trades buy_x buy_y sell_x sell_y")
  case (Inl e)
  with build_trades_Inl [OF Inl] show ?thesis by simp
next
  case (Inr trades)
  let ?all = "marked ''BUY'' (zip buy_x buy_y) @ marked ''SELL'' (zip sell_x sell_y)"
  have tr: "trades = sort_key fst ?all"
    using Inr by (rule build_trades_Inr)
  have srt: "sorted (map fst trades)"
    unfolding tr by (rule sorted_sort_key)
  have stable: "filter (\<lambda>t. fst t = k) trades =
               filter (\<lambda>t. fst t = k) (marked ''BUY'' (zip buy_x buy_y)) @
               filter (\<lambda>t. fst t = k) (marked ''SELL'' (zip sell_x sell_y))" for k
    unfolding tr by (simp only: sort_key_stable filter_append)
  have sides: "\<exists>m n. map (\<lambda>t. fst (snd t)) (filter (\<lambda>t. fst t = k) trades) =
               replicate m ''BUY'' @ replicate n ''SELL''" for k
    unfolding stable map_append side_of_marked by blast
  show ?thesis
    unfolding Inr sum.case using srt stable sides by blast
qed

theorem trades_sorted_stably_witness:
  "build_trades [1577923200000, 1577836800000] [101 :: real, 102] [1577836800000] [103] =
     Inr [(''2020-01-01 00:00:00'', ''BUY'', 102), (''2020-01-01 00:00:00'', ''SELL'', 103),
          (''2020-01-02 00:00:00'', ''BUY'', 101)] \<and>
   sorted (map fst [(''2020-01-01 00:00:00'', ''BUY'', 102 :: real),
                    (''2020-01-01 00:00:00'', ''SELL'', 103),
                    (''2020-01-02 00:00:00'', ''BUY'', 101)]) \<and>
   filter (\<lambda>t. fst t = ''2020-01-01 00:00:00'')
       [(''2020-01-01 00:00:00'', ''BUY'', 102 :: real), (''2020-01-01 00:00:00'', ''SELL'', 103),
        (''2020-01-02 00:00:00'', ''BUY'', 101)]
     = filter (\<lambda>t. fst t = ''2020-01-01 00:00:00'')
         (marked ''BUY'' (zip [1577923200000, 1577836800000] [101, 102])) @
       filter (\<lambda>t. fst t = ''2020-01-01 00:00:00'')
         (marked ''SELL'' (zip [1577836800000] [103])) \<and>
   (\<exists>m n. map (\<lambda>t. fst (snd t)) (filter (\<lambda>t. fst t = ''2020-01-01 00:00:00'')
       [(''2020-01-01 00:00:00'', ''BUY'', 102 :: real), (''2020-01-01 00:00:00'', ''SELL'', 103),
        (''2020-01-02 00:00:00'', ''BUY'', 101)])
      = replicate m ''BUY'' @ replicate n ''SELL'')"
proof -
  have run: "build_trades [1577923200000, 1577836800000] [101 :: real, 102]
       [1577836800000] [103] =
     Inr [(''2020-01-01 00:00:00'', ''BUY'', 102), (''2020-01-01 00:00:00'', ''SELL'', 103),
          (''2020-01-02 00:00:00'', ''BUY'', 101)]"
    by code_simp
  note sorted_run = trades_sorted_stably [where buy_x = "[1577923200000, 1577836800000]"
      and buy_y = "[101 :: real, 102]" and sell_x = "[1577836800000]" and sell_y = "[103]",
      unfolded run sum.case]
  from sorted_run run show ?thesis by blast
qed

text \<open>
  C10. The two loops pair timestamps and prices with \<^verbatim>\<open>zip\<close>: the number of trades is
  the smaller length of the buy lists plus the smaller length of the sell lists, and the
  result is the one for the lists cut to those lengths, so the entries beyond the
  shorter list play no part. The only exception that can leave the function is the one
  of \<^verbatim>\<open>_ms_to_utc_iso\<close> on a paired timestamp; unequal lengths raise nothing.
\<close>

theorem trades_paired_by_zip:
  "(case build_trades buy_x buy_y sell_x sell_y of
      Inr trades \<Rightarrow>
        length trades = min (length buy_x) (length buy_y) + min (length sell_x) (length sell_y)
    | Inl e \<Rightarrow>
        \<exists>x\<in>set (take (length buy_y) buy_x) \<union> set (take (length sell_y) sell_x).
           ms_to_utc_iso x = Inl e) \<and>
   build_trades buy_x buy_y sell_x sell_y =
     build_trades (take (min (length buy_x) (length buy_y)) buy_x)
                  (take (min (length buy_x) (length buy_y)) buy_y)
                  (take (min (length sell_x) (length sell_y)) sell_x)
                  (take (min (length sell_x) (length sell_y)) sell_y)"
proof
  show "case build_trades buy_x buy_y sell_x sell_y of
      Inr trades \<Rightarrow>
        length trades = min (length buy_x) (length buy_y) + min (length sell_x) (length sell_y)
    | Inl e \<Rightarrow>
        \<exists>x\<in>set (take (length buy_y) buy_x) \<union> set (take (length sell_y) sell_x).
           ms_to_utc_iso x = Inl e"
  proof (cases "build_trades buy_x buy_y sell_x sell_y")
    case (Inl e)
    with build_trades_Inl [OF Inl] show ?thesis by simp
  next
    case (Inr trades)
    with build_trades_Inr [OF Inr] show ?thesis by (simp add: marked_def)
  qed
  have z: "zip (take (min (length xs) (length ys)) xs) (take (min (length xs) (length ys)) ys)
      = zip xs ys" for xs :: "int list" and ys :: "'a list"
    by (simp add: take_zip [symmetric])
  show "build_trades buy_x buy_y sell_x sell_y =
     build_trades (take (min (length buy_x) (length buy_y)) buy_x)
                  (take (min (length buy_x) (length buy_y)) buy_y)
                  (take (min (length sell_x) (length sell_y)) sell_x)
                  (take (min (length sell_x) (length sell_y)) sell_y)"
    unfolding build_trades_def z ..
qed

theorem trades_paired_by_zip_witness:
  "build_trades [1577836800000, 1577750400000, 99999999999999999] [101 :: real, 102]
       [1577923200000] [103, 104, 105]
     = Inr [(''2019-12-31 00:00:00'', ''BUY'', 102), (''2020-01-01 00:00:00'', ''BUY'', 101),
            (''2020-01-02 00:00:00'', ''SELL'', 103)] \<and>
   length [(''2019-12-31 00:00:00'', ''BUY'', 102 :: real), (''2020-01-01 00:00:00'', ''BUY'', 101),
           (''2020-01-02 00:00:00'', ''SELL'', 103)]
     = min (length [1577836800000, 1577750400000, 99999999999999999 :: int])
           (length [101 :: real, 102])
       + min (length [1577923200000 :: int]) (length [103 :: real, 104, 105])"
proof -
  have run: "build_trades [1577836800000, 1577750400000, 99999999999999999] [101 :: real, 102]
       [1577923200000] [103, 104, 105]
     = Inr [(''2019-12-31 00:00:00'', ''BUY'', 102), (''2020-01-01 00:00:00'', ''BUY'', 101),
            (''2020-01-02 00:00:00'', ''SELL'', 103)]"
    by code_simp
  from trades_paired_by_zip [where buy_x = "[1577836800000, 1577750400000, 99999999999999999]"
      and buy_y = "[101 :: real, 102]" and sell_x = "[1577923200000]"
      and sell_y = "[103, 104, 105]", THEN conjunct1]
  show ?thesis unfolding run by simp
qed


lemma main_chart_absent:
  assumes "py_get result ''charts'' = Inr c"
    and "py_or rt c (JObj []) = JObj cs"
    and "map_of cs (chart_name a) = None"
  shows "main rt a (Parsed result) w =
         Inl (SystemExit (missing_chart_message (chart_name a) (remdups (map fst cs))))"
  using assms by (simp add: main_def and_then_def dict_keys_def)

text \<open>
  C9. With the input file missing, \<^verbatim>\<open>main\<close> ends with a non-zero status and the message
  \<^verbatim>\<open>Input json not found: <path>\<close>. With the requested chart absent from the charts of
  the file, it ends with a non-zero status and a message that names the chart and lists
  the chart names of the file, sorted and separated by commas. With no \<^verbatim>\<open>charts\<close> key in
  the file, the same message is given with an empty list.
\<close>

theorem main_missing_input_or_chart:
  "(exit_status (main rt a Missing w) \<noteq> 0 \<and>
    stderr_message (main rt a Missing w) = Some (''Input json not found: '' @ input_path a)) \<and>
   (map_of doc ''charts'' = Some (JObj cs) \<and> map_of cs (chart_name a) = None \<longrightarrow>
      exit_status (main rt a (Parsed (JObj doc)) w) \<noteq> 0 \<and>
      stderr_message (main rt a (Parsed (JObj doc)) w) =
        Some (''Chart '' @ [CHR 0x27] @ chart_name a @ [CHR 0x27] @ '' not found. Available: ''
              @ join '', '' (sort (remdups (map fst cs)))) \<and>
      set (sort (remdups (map fst cs))) = dom (map_of cs)) \<and>
   (map_of doc ''charts'' = None \<longrightarrow>
      exit_status (main rt a (Parsed (JObj doc)) w) \<noteq> 0 \<and>
      stderr_message (main rt a (Parsed (JObj doc)) w) =
        Some (''Chart '' @ [CHR 0x27] @ chart_name a @ [CHR 0x27] @ '' not found. Available: ''))"
proof (intro conjI impI)
  show "exit_status (main rt a Missing w) \<noteq> 0"
    by (simp add: main_def exit_status_def)
  show "stderr_message (main rt a Missing w) = Some (''Input json not found: '' @ input_path a)"
    by (simp add: main_def stderr_message_def)
next
  assume h: "map_of doc ''charts'' = Some (JObj cs) \<and> map_of cs (chart_name a) = None"
  have m: "main rt a (Parsed (JObj doc)) w =
         Inl (SystemExit (missing_chart_message (chart_name a) (remdups (map fst cs))))"
    using h main_chart_absent [where result = "JObj doc" and c = "JObj cs" and cs = cs
        and rt = rt and a = a and w = w]
    by (simp add: py_or_def)
  show "exit_status (main rt a (Parsed (JObj doc)) w) \<noteq> 0"
    by (simp add: m exit_status_def)
  show "stderr_message (main rt a (Parsed (JObj doc)) w) =
        Some (''Chart '' @ [CHR 0x27] @ chart_name a @ [CHR 0x27] @ '' not found. Available: ''
              @ join '', '' (sort (remdups (map fst cs))))"
    by (simp add: m stderr_message_def missing_chart_message_def)
  show "set (sort (remdups (map fst cs))) = dom (map_of cs)"
    by (simp add: dom_map_of_conv_image_fst)
next
  assume h: "map_of doc ''charts'' = None"
  have m: "main rt a (Parsed (JObj doc)) w = Inl (SystemExit (missing_chart_message (chart_name a) []))"
    using h main_chart_absent [where result = "JObj doc" and c = JNull and cs = "[]" and rt = rt
        and a = a and w = w]
    by (simp add: py_or_def)
  show "exit_status (main rt a (Parsed (JObj doc)) w) \<noteq> 0"
    by (simp add: m exit_status_def)
  show "stderr_message (main rt a (Parsed (JObj doc)) w) =
        Some (''Chart '' @ [CHR 0x27] @ chart_name a @ [CHR 0x27] @ '' not found. Available: '')"
    by (simp add: m stderr_message_def missing_chart_message_def join_def)
qed

theorem main_missing_input_or_chart_witness:
  "\<forall>rt :: real runtime.
     stderr_message (main rt \<lparr>input_path = ''/data/run.json'', chart_name = ''SPY'',
         output_path = ''/data/run-viz.html''\<rparr>
       (Parsed (JObj [(''charts'', JObj [(''QQQ'', JObj []), (''AAPL'', JObj [])])])) True)
       = Some ''Chart 'SPY' not found. Available: AAPL, QQQ'' \<and>
     stderr_message (main rt \<lparr>input_path = ''/data/run.json'', chart_name = ''SPY'',
         output_path = ''/data/run-viz.html''\<rparr>
       (Parsed (JObj [(''statistics'', JObj [])])) True)
       = Some ''Chart 'SPY' not found. Available: '' \<and>
     stderr_message (main rt \<lparr>input_path = ''/data/run.json'', chart_name = ''SPY'',
         output_path = ''/data/run-viz.html''\<rparr> Missing True)
       = Some ''Input json not found: /data/run.json''"
proof
  fix rt :: "real runtime"
  let ?a = "\<lparr>input_path = ''/data/run.json'', chart_name = ''SPY'',
         output_path = ''/data/run-viz.html''\<rparr>"
  have srt: "sort (remdups (map fst [(''QQQ'', JObj []), (''AAPL'', JObj [] :: real json)]))
      = [''AAPL'', ''QQQ'']"
    by simp
  note a = main_missing_input_or_chart [where rt = rt and a = ?a and w = True
      and doc = "[(''charts'', JObj [(''QQQ'', JObj []), (''AAPL'', JObj [])])]"
      and cs = "[(''QQQ'', JObj []), (''AAPL'', JObj [])]"]
  note b = main_missing_input_or_chart [where rt = rt and a = ?a and w = True
      and doc = "[(''statistics'', JObj [])]" and cs = "[]"]
  have 1: "stderr_message (main rt ?a
       (Parsed (JObj [(''charts'', JObj [(''QQQ'', JObj []), (''AAPL'', JObj [])])])) True)
       = Some ''Chart 'SPY' not found. Available: AAPL, QQQ''"
    using a [THEN conjunct2, THEN conjunct1] unfolding srt by (simp add: join_def)
  have 2: "stderr_message (main rt ?a (Parsed (JObj [(''statistics'', JObj [])])) True)
       = Some ''Chart 'SPY' not found. Available: ''"
    using b [THEN conjunct2, THEN conjunct2] by simp
  have 3: "stderr_message (main rt ?a Missing True) = Some ''Input json not found: /data/run.json''"
    using a [THEN conjunct1] by simp
  show "stderr_message (main rt ?a
       (Parsed (JObj [(''charts'', JObj [(''QQQ'', JObj []), (''AAPL'', JObj [])])])) True)
       = Some ''Chart 'SPY' not found. Available: AAPL, QQQ'' \<and>
     stderr_message (main rt ?a (Parsed (JObj [(''statistics'', JObj [])])) True)
       = Some ''Chart 'SPY' not found. Available: '' \<and>
     stderr_message (main rt ?a Missing True) = Some ''Input json not found: /data/run.json''"
    using 1 2 3 by blast
qed

end
